theory Spec2Isabelle
  imports Complex_Main "HOL-Library.AList" "HOL-Library.Sublist"
begin

section \<open>Python values\<close>

text \<open>
  The scripts are dynamically typed: a classification result is the very dictionary that
  \<^verbatim>\<open>json.loads\<close> produced, with keys added to it. Values are therefore modelled by one
  datatype of Python values. A float carries the exact rational value of the IEEE double
  (or one of the three special values \<^verbatim>\<open>json.loads\<close> accepts); comparisons of Python
  numbers are exact, so they are comparisons of these rationals. Dictionaries keep their
  insertion order, as an association list; assigning to a key is \<open>AList.update\<close>
  (replace in place, or append).
\<close>

datatype pyfloat = Finite rat | PosInf | NegInf | NaN

datatype py =
    PNone
  | PBool bool
  | PInt int
  | PFloat pyfloat
  | PStr string
  | PList "py list"
  | PDict "(string \<times> py) list"

text \<open>The exceptions (all subclasses of \<^verbatim>\<open>Exception\<close>) that the modelled code can meet.\<close>

datatype exn = TypeError | KeyError | ValueError | IndexError | JSONDecodeError | TransportError

text \<open>
  \<^verbatim>\<open>x < CONFIDENCE_THRESHOLD\<close> for a float right operand: numbers (and booleans, which
  are integers in Python) compare by value, every comparison with NaN is false, anything
  else raises TypeError.
\<close>

fun float_lt :: "pyfloat \<Rightarrow> pyfloat \<Rightarrow> bool" where
  "float_lt NaN _ = False"
| "float_lt _ NaN = False"
| "float_lt (Finite a) (Finite b) = (a < b)"
| "float_lt (Finite a) PosInf = True"
| "float_lt (Finite a) NegInf = False"
| "float_lt PosInf _ = False"
| "float_lt NegInf NegInf = False"
| "float_lt NegInf _ = True"

fun py_lt :: "py \<Rightarrow> pyfloat \<Rightarrow> exn + bool" where
  "py_lt (PBool b) t = Inr (float_lt (Finite (if b then 1 else 0)) t)"
| "py_lt (PInt i) t = Inr (float_lt (Finite (of_int i)) t)"
| "py_lt (PFloat x) t = Inr (float_lt x t)"
| "py_lt _ t = Inl TypeError"

text \<open>Truth value of a Python object, as \<^verbatim>\<open>if x\<close>, \<^verbatim>\<open>x and y\<close>, \<^verbatim>\<open>x or y\<close> test it.\<close>

fun truthy :: "py \<Rightarrow> bool" where
  "truthy PNone = False"
| "truthy (PBool b) = b"
| "truthy (PInt i) = (i \<noteq> 0)"
| "truthy (PFloat (Finite r)) = (r \<noteq> 0)"
| "truthy (PFloat _) = True"
| "truthy (PStr s) = (s \<noteq> [])"
| "truthy (PList xs) = (xs \<noteq> [])"
| "truthy (PDict d) = (d \<noteq> [])"

text \<open>
  \<^verbatim>\<open>k in x\<close> for a string \<open>k\<close>: key membership in a dict, element membership in a list,
  substring test in a string, TypeError otherwise.
\<close>

fun py_in :: "string \<Rightarrow> py \<Rightarrow> exn + bool" where
  "py_in k (PDict d) = Inr (map_of d k \<noteq> None)"
| "py_in k (PList xs) = Inr (PStr k \<in> set xs)"
| "py_in k (PStr s) = Inr (sublist k s)"
| "py_in k _ = Inl TypeError"

text \<open>
  \<^verbatim>\<open>str.strip()\<close>: removes leading and trailing whitespace. Model strings hold code points
  below 256; these are the ones for which \<^verbatim>\<open>str.isspace\<close> holds.
\<close>

definition isspace :: "char \<Rightarrow> bool" where
  "isspace c = ((of_char c :: nat) \<in> {9, 10, 11, 12, 13, 28, 29, 30, 31, 32, 133, 160})"

definition strip :: "string \<Rightarrow> string" where
  "strip s = rev (dropWhile isspace (rev (dropWhile isspace s)))"

text \<open>Decimal rendering of an index, as an f-string renders an \<^verbatim>\<open>int\<close>.\<close>

definition digit_char :: "nat \<Rightarrow> char" where
  "digit_char n = ''0123456789'' ! n"

fun str_nat :: "nat \<Rightarrow> string" where
  "str_nat n = (if n < 10 then [digit_char n] else str_nat (n div 10) @ [digit_char (n mod 10)])"

section \<open>Global configuration\<close>

definition COLUMN_CATEGORIES :: "string list" where
  "COLUMN_CATEGORIES =
     [''ticket_number'', ''title'', ''description'', ''department'', ''priority'',
      ''status'', ''due_date'', ''assigned_to'', ''created_at'', ''OTHER'']"

definition FIXED_DEPARTMENTS :: "string list" where
  "FIXED_DEPARTMENTS =
     [''IT'', ''Finance'', ''HR'', ''Operations'', ''Legal'', ''Compliance'',
      ''Marketing'', ''Sales'', ''OTHER'']"

text \<open>
  \<^verbatim>\<open>CONFIDENCE_THRESHOLD = 0.6\<close>: the float literal denotes the double nearest to 6/10,
  which is 5404319552844595 / 2^53.
\<close>

definition CONFIDENCE_THRESHOLD :: pyfloat where
  "CONFIDENCE_THRESHOLD = Finite (5404319552844595 / 9007199254740992)"

section \<open>Prompts and the library functions the scripts call\<close>

text \<open>
  A prompt is a fixed template of text around the interpolated pieces; it is represented
  by those pieces. For the department prompt they are the task type, the original value
  (\<open>None\<close> when the template prints \<^verbatim>\<open>[EMPTY]\<close>), the title and the description after
  \<^verbatim>\<open>or 'N/A'\<close>, and the department list.
\<close>

datatype prompt =
    ColumnPrompt string string "string list" "string list"
  | DepartmentPrompt string "py option" py py "string list"

text \<open>
  What the scripts call but do not define:
  \<^item> \<open>ollama_chat\<close>: \<^verbatim>\<open>ollama.chat(...)['message']['content']\<close>, the text of the reply, or
    the exception the transport raised;
  \<^item> \<open>json_loads\<close>: \<^verbatim>\<open>json.loads\<close>;
  \<^item> \<open>format_value\<close>: \<^verbatim>\<open>str(v)\<close> and \<^verbatim>\<open>f"{v}"\<close> for a value that is not a string;
  \<^item> \<open>random_sample\<close>: \<^verbatim>\<open>Series.sample(n=n, random_state=seed).tolist()\<close>, as a function
    of the seed, the values of the series and \<open>n\<close>;
  \<^item> \<open>set_iteration\<close>: \<^verbatim>\<open>list(set(xs))\<close>, whose order depends on the string hashes of
    the running process.
\<close>

record env =
  ollama_chat :: "prompt \<Rightarrow> exn + string"
  json_loads :: "string \<Rightarrow> exn + py"
  format_value :: "py \<Rightarrow> string"
  random_sample :: "nat \<Rightarrow> py list \<Rightarrow> nat \<Rightarrow> py list"
  set_iteration :: "string list \<Rightarrow> string list"

definition py_str :: "env \<Rightarrow> py \<Rightarrow> string" where
  "py_str E v = (case v of PStr s \<Rightarrow> s | _ \<Rightarrow> format_value E v)"

section \<open>Llama3Client\<close>

definition fallback_column :: py where
  "fallback_column = PDict [(''category'', PStr ''OTHER''), (''confidence'', PFloat (Finite 0))]"

definition fallback_department :: py where
  "fallback_department = PDict [(''department'', PStr ''OTHER''), (''confidence'', PFloat (Finite 0))]"

text \<open>The body of the \<^verbatim>\<open>try\<close> block: call, parse, validate that both keys are there.\<close>

definition classify_try :: "env \<Rightarrow> string \<Rightarrow> prompt \<Rightarrow> exn + py" where
  "classify_try E label prompt =
     (case ollama_chat E prompt of
        Inl e \<Rightarrow> Inl e
      | Inr content \<Rightarrow>
          (case json_loads E content of
             Inl e \<Rightarrow> Inl e
           | Inr result \<Rightarrow>
               (case py_in label result of
                  Inl e \<Rightarrow> Inl e
                | Inr has_label \<Rightarrow>
                    if \<not> has_label then Inl ValueError
                    else (case py_in ''confidence'' result of
                            Inl e \<Rightarrow> Inl e
                          | Inr has_confidence \<Rightarrow>
                              if \<not> has_confidence then Inl ValueError else Inr result))))"

text \<open>\<^verbatim>\<open>except Exception\<close>: whatever the body raised, the fallback is returned.\<close>

definition classify_column :: "env \<Rightarrow> prompt \<Rightarrow> exn + py" where
  "classify_column E prompt =
     (case classify_try E ''category'' prompt of
        Inl e \<Rightarrow> Inr fallback_column
      | Inr result \<Rightarrow> Inr result)"

definition classify_department :: "env \<Rightarrow> prompt \<Rightarrow> exn + py" where
  "classify_department E prompt =
     (case classify_try E ''department'' prompt of
        Inl e \<Rightarrow> Inr fallback_department
      | Inr result \<Rightarrow> Inr result)"

section \<open>Prompt creation\<close>

definition py_or :: "py \<Rightarrow> py \<Rightarrow> py" where
  "py_or a b = (if truthy a then a else b)"

definition create_column_prompt :: "string \<Rightarrow> string \<Rightarrow> string list \<Rightarrow> string list \<Rightarrow> prompt" where
  "create_column_prompt header dtype sample_values categories =
     ColumnPrompt header dtype sample_values categories"

definition create_department_prompt :: "env \<Rightarrow> py \<Rightarrow> py \<Rightarrow> py \<Rightarrow> string list \<Rightarrow> prompt" where
  "create_department_prompt E department_value title description departments =
     (if truthy department_value \<and> strip (py_str E department_value) \<noteq> [] then
        DepartmentPrompt ''normalize and map'' (Some department_value)
          (py_or title (PStr ''N/A'')) (py_or description (PStr ''N/A'')) departments
      else
        DepartmentPrompt ''infer from content'' None
          (py_or title (PStr ''N/A'')) (py_or description (PStr ''N/A'')) departments)"

section \<open>Processing functions\<close>

text \<open>
  A pandas Series: its dtype name and its cells. \<^verbatim>\<open>dropna\<close> removes the missing cells
  (\<^verbatim>\<open>None\<close> and NaN).
\<close>

record series =
  dtype :: string
  cells :: "py list"

definition isna :: "py \<Rightarrow> bool" where
  "isna v = (v = PNone \<or> v = PFloat NaN)"

definition dropna :: "py list \<Rightarrow> py list" where
  "dropna xs = filter (\<lambda>v. \<not> isna v) xs"

text \<open>
  The sampling step of \<^verbatim>\<open>process_column\<close>: first five values, five sampled with
  \<^verbatim>\<open>random_state=1\<close>, deduplicated as strings through a set, cut at ten.
\<close>

definition sample_values :: "env \<Rightarrow> py list \<Rightarrow> string list" where
  "sample_values E non_null_column =
     (let first_samples = take 5 non_null_column;
          sample_size = min 5 (length non_null_column);
          random_samples = random_sample E 1 non_null_column sample_size;
          all_samples = set_iteration E (map (py_str E) (first_samples @ random_samples))
      in take 10 all_samples)"

text \<open>
  The confidence gate shared by both processing functions: \<open>label\<close> is the key that is
  forced to \<^verbatim>\<open>'OTHER'\<close> (\<^verbatim>\<open>category\<close>, resp. \<^verbatim>\<open>suggested\<close>). Reading
  \<^verbatim>\<open>result['confidence']\<close> raises on anything but a dict that has the key.
\<close>

definition confidence_gate :: "env \<Rightarrow> string \<Rightarrow> py \<Rightarrow> exn + py" where
  "confidence_gate E label result =
     (case result of
        PDict d \<Rightarrow>
          (case map_of d ''confidence'' of
             None \<Rightarrow> Inl KeyError
           | Some c \<Rightarrow>
               (case py_lt c CONFIDENCE_THRESHOLD of
                  Inl e \<Rightarrow> Inl e
                | Inr needs_review \<Rightarrow>
                    if needs_review then
                      Inr (PDict
                        (AList.update ''reason'' (PStr (''Low confidence ('' @ py_str E c @ '')''))
                        (AList.update ''needs_manual_review'' (PBool True)
                        (AList.update label (PStr ''OTHER'') d))))
                    else
                      Inr (PDict (AList.update ''needs_manual_review'' (PBool False) d))))
      | _ \<Rightarrow> Inl TypeError)"

text \<open>
  The processing functions return the list of prompts sent to the client together with
  the result (or the exception that escapes).
\<close>

definition process_column :: "env \<Rightarrow> series \<Rightarrow> string \<Rightarrow> string list \<Rightarrow> prompt list \<times> (exn + py)" where
  "process_column E df_column column_name categories =
     (let non_null_column = dropna (cells df_column) in
      if length non_null_column = 0 then
        ([], Inr (PDict [(''category'', PStr ''OTHER''), (''confidence'', PFloat (Finite 0)),
                         (''needs_manual_review'', PBool True),
                         (''reason'', PStr ''Column is empty'')]))
      else
        let prompt = create_column_prompt column_name (dtype df_column)
                       (sample_values E non_null_column) categories
        in (case classify_column E prompt of
              Inl e \<Rightarrow> ([prompt], Inl e)
            | Inr result \<Rightarrow> ([prompt], confidence_gate E ''category'' result)))"

definition process_department ::
  "env \<Rightarrow> int \<Rightarrow> py \<Rightarrow> py \<Rightarrow> py \<Rightarrow> string list \<Rightarrow> prompt list \<times> (exn + py)" where
  "process_department E row_index department_value title description departments =
     (let prompt = create_department_prompt E department_value title description departments
      in (case classify_department E prompt of
            Inl e \<Rightarrow> ([prompt], Inl e)
          | Inr result \<Rightarrow>
              ([prompt],
               (case result of
                  PDict d \<Rightarrow>
                    let d1 = AList.update ''row'' (PInt row_index) d;
                        d2 = AList.update ''original''
                               (if truthy department_value then department_value else PStr []) d1
                    in (case map_of d2 ''department'' of
                          None \<Rightarrow> Inl KeyError
                        | Some dep \<Rightarrow>
                            let d3 = AList.update ''suggested'' dep d2;
                                d4 = AList.update ''source''
                                       (if truthy department_value
                                           \<and> strip (py_str E department_value) \<noteq> []
                                        then PStr ''normalized''
                                        else PStr ''inferred_from_content'') d3
                            in confidence_gate E ''suggested'' (PDict d4))
                | _ \<Rightarrow> Inl TypeError))))"

text \<open>Reading one key of a returned result; \<open>None\<close> when there is no such key or no result.\<close>

definition field :: "string \<Rightarrow> exn + py \<Rightarrow> py option" where
  "field k r = (case r of Inr (PDict d) \<Rightarrow> map_of d k | _ \<Rightarrow> None)"

section \<open>Column mapping (run\_classifier, step 4)\<close>

text \<open>
  The loop of \<^verbatim>\<open>main\<close> that builds \<^verbatim>\<open>column_mapping\<close> from the list of column
  classifications (each the dict returned by \<^verbatim>\<open>process_column\<close>, with
  \<^verbatim>\<open>original_name\<close> added). The argument \<open>m\<close> is the dict built so far. A missing key
  raises KeyError, a list or dict used as key raises TypeError (unhashable).

  A Python dict finds a key by hash and \<^verbatim>\<open>==\<close>: \<open>py_key\<close> gives what is compared. Strings
  compare by content and \<^verbatim>\<open>None\<close> with itself; booleans, integers and floats compare by
  value, so that \<^verbatim>\<open>True\<close>, \<^verbatim>\<open>1\<close> and \<^verbatim>\<open>1.0\<close> are one key; the NaN that \<^verbatim>\<open>json.loads\<close>
  returns is one object, found again by identity. Assigning to a key that is present keeps
  the key object that is stored and replaces its value; a new key goes to the end.
\<close>

datatype key = KNone | KNum rat | KPosInf | KNegInf | KNaN | KStr string

fun py_key :: "py \<Rightarrow> key option" where
  "py_key PNone = Some KNone"
| "py_key (PBool b) = Some (KNum (if b then 1 else 0))"
| "py_key (PInt i) = Some (KNum (of_int i))"
| "py_key (PFloat (Finite r)) = Some (KNum r)"
| "py_key (PFloat PosInf) = Some KPosInf"
| "py_key (PFloat NegInf) = Some KNegInf"
| "py_key (PFloat NaN) = Some KNaN"
| "py_key (PStr s) = Some (KStr s)"
| "py_key (PList xs) = None"
| "py_key (PDict d) = None"

fun dict_setitem :: "py \<Rightarrow> py \<Rightarrow> (py \<times> py) list \<Rightarrow> (py \<times> py) list" where
  "dict_setitem k v [] = [(k, v)]"
| "dict_setitem k v ((k', v') # m) =
     (if py_key k' = py_key k then (k', v) # m else (k', v') # dict_setitem k v m)"

fun dict_getitem :: "(py \<times> py) list \<Rightarrow> py \<Rightarrow> py option" where
  "dict_getitem [] k = None"
| "dict_getitem ((k', v') # m) k = (if py_key k' = py_key k then Some v' else dict_getitem m k)"

fun column_mapping :: "(string \<times> py) list list \<Rightarrow> (py \<times> py) list \<Rightarrow> exn + (py \<times> py) list" where
  "column_mapping [] m = Inr m"
| "column_mapping (classification # rest) m =
     (case map_of classification ''category'' of
        None \<Rightarrow> Inl KeyError
      | Some category \<Rightarrow>
          if category \<noteq> PStr ''OTHER'' then
            (case map_of classification ''original_name'' of
               None \<Rightarrow> Inl KeyError
             | Some original_name \<Rightarrow>
                 if py_key category \<noteq> None
                 then column_mapping rest (dict_setitem category original_name m)
                 else Inl TypeError)
          else column_mapping rest m)"

section \<open>Excel header detection (xlsx\_parser)\<close>

text \<open>
  \<^verbatim>\<open>read_excel_file\<close> after \<^verbatim>\<open>pd.read_excel(..., header=None)\<close> has produced the cells of
  the sheet, row by row (missing cells are NaN). A frame has column labels and rows; read
  without a header, its labels are the integers \<open>0, 1, ...\<close>. Any exception inside the
  function, such as \<^verbatim>\<open>iloc[0]\<close> on a frame without rows, is re-raised as ValueError.
\<close>

record dataframe =
  columns :: "py list"
  rows :: "py list list"

definition isinstance_str :: "py \<Rightarrow> bool" where
  "isinstance_str v = (case v of PStr s \<Rightarrow> True | _ \<Rightarrow> False)"

definition header_name :: "nat \<Rightarrow> py \<Rightarrow> py" where
  "header_name idx val =
     (case val of
        PStr s \<Rightarrow> if strip s \<noteq> [] then PStr (strip s) else PStr (''Column_'' @ str_nat idx)
      | _ \<Rightarrow> PStr (''Column_'' @ str_nat idx))"

definition read_excel_file :: "py list list \<Rightarrow> exn + dataframe" where
  "read_excel_file sheet =
     (let df_raw = filter (\<lambda>row. \<not> list_all isna row) sheet in
      case df_raw of
        [] \<Rightarrow> Inl ValueError
      | first_row # data \<Rightarrow>
          let string_count = length (filter isinstance_str first_row) in
          if (of_nat string_count :: rat) > of_nat (length first_row) * (1 / 2) then
            Inr \<lparr>columns = map (\<lambda>(idx, val). header_name idx val) (enumerate 0 first_row),
                 rows = data\<rparr>
          else
            Inr \<lparr>columns = map (\<lambda>i. PInt (int i)) [0..<length first_row],
                 rows = df_raw\<rparr>)"

section \<open>A concrete environment\<close>

text \<open>
  An environment for evaluating the functions on concrete inputs: the transport answers
  every prompt with \<open>reply\<close>, parsing that answer gives \<open>parsed\<close>, the sampler takes the
  last \<open>n\<close> values, and a set is iterated in order of first occurrence.
\<close>

definition example_format :: "py \<Rightarrow> string" where
  "example_format v =
     (if v = PFloat (Finite 0) then ''0.0''
      else if v = PFloat (Finite (1 / 4)) then ''0.25''
      else if v = PFloat (Finite (3 / 4)) then ''0.75''
      else ''?'')"

definition last_values :: "nat \<Rightarrow> py list \<Rightarrow> nat \<Rightarrow> py list" where
  "last_values seed xs n = rev (take n (rev xs))"

definition example_env :: "exn + string \<Rightarrow> exn + py \<Rightarrow> env" where
  "example_env reply parsed =
     \<lparr>ollama_chat = (\<lambda>prompt. reply), json_loads = (\<lambda>content. parsed),
      format_value = example_format, random_sample = last_values,
      set_iteration = remdups\<rparr>"

definition example_column :: series where
  "example_column = \<lparr>dtype = ''object'', cells = [PStr ''Server down'', PNone, PStr ''Budget review'']\<rparr>"

text \<open>Parsed replies used below: one with an extra key, two that are the list of the key
  names, one with a label outside the taxonomy, one with low and one with high confidence.\<close>

definition reply_with_reason :: py where
  "reply_with_reason =
     PDict [(''category'', PStr ''title''), (''confidence'', PFloat (Finite (3 / 4))),
            (''reason'', PStr ''looks like a title'')]"

definition key_names_column :: py where
  "key_names_column = PList [PStr ''category'', PStr ''confidence'']"

definition key_names_department :: py where
  "key_names_department = PList [PStr ''department'', PStr ''confidence'']"

definition reply_severity :: py where
  "reply_severity = PDict [(''category'', PStr ''severity''), (''confidence'', PFloat (Finite (3 / 4)))]"

definition reply_low :: py where
  "reply_low = PDict [(''department'', PStr ''Finance''), (''category'', PStr ''title''), (''confidence'', PFloat (Finite (1 / 4)))]"

definition reply_high :: py where
  "reply_high = PDict [(''department'', PStr ''Finance''), (''category'', PStr ''title''), (''confidence'', PFloat (Finite (3 / 4)))]"

text \<open>Three column classifications, two of them with the category \<^verbatim>\<open>title\<close>.\<close>

definition example_classifications :: "(string \<times> py) list list" where
  "example_classifications =
     [[(''category'', PStr ''title''), (''confidence'', PFloat (Finite (3 / 4))),
       (''needs_manual_review'', PBool False), (''original_name'', PStr ''Summary'')],
      [(''category'', PStr ''OTHER''), (''confidence'', PFloat (Finite (1 / 4))),
       (''needs_manual_review'', PBool True), (''reason'', PStr ''Low confidence (0.25)''),
       (''original_name'', PStr ''Notes'')],
      [(''category'', PStr ''title''), (''confidence'', PFloat (Finite (3 / 4))),
       (''needs_manual_review'', PBool False), (''original_name'', PStr ''Headline'')]]"

text \<open>A column whose first five values are equal and whose other six values are distinct.\<close>

definition skewed_column :: series where
  "skewed_column = \<lparr>dtype = ''object'',
     cells = [PStr ''a'', PStr ''a'', PStr ''a'', PStr ''a'', PStr ''a'', PNone,
              PStr ''b'', PStr ''c'', PStr ''d'', PStr ''e'', PStr ''f'', PStr ''g'']\<rparr>"

text \<open>Another iteration order for a set: the reverse of the order of first occurrence.\<close>

definition reversed_iteration :: "string list \<Rightarrow> string list" where
  "reversed_iteration ys = rev (remdups ys)"

text \<open>A sheet of numbers, and a sheet with an empty row above a row of titles.\<close>

definition numeric_sheet :: "py list list" where
  "numeric_sheet = [[PInt 1, PInt 2], [PInt 3, PInt 4]]"

definition titled_sheet :: "py list list" where
  "titled_sheet = [[PNone, PNone, PNone],
                   [PStr '' Issue ID'', PStr ''  '', PFloat NaN],
                   [PInt 1, PStr ''Server down'', PStr ''IT'']]"

section \<open>Auxiliary notions for the statements\<close>

text \<open>The dict that \<open>process_department\<close> hands to the confidence gate.\<close>

definition with_metadata :: "env \<Rightarrow> int \<Rightarrow> py \<Rightarrow> py \<Rightarrow> (string \<times> py) list \<Rightarrow> (string \<times> py) list" where
  "with_metadata E row_index department_value dep d =
     AList.update ''source''
       (if truthy department_value \<and> strip (py_str E department_value) \<noteq> []
        then PStr ''normalized'' else PStr ''inferred_from_content'')
     (AList.update ''suggested'' dep
     (AList.update ''original'' (if truthy department_value then department_value else PStr [])
     (AList.update ''row'' (PInt row_index) d)))"

text \<open>A column classification as \<^verbatim>\<open>main\<close> builds it: its category is a string label, and it
  has an original name.\<close>

definition well_formed :: "(string \<times> py) list \<Rightarrow> bool" where
  "well_formed c = (case map_of c ''category'' of
       Some (PStr label) \<Rightarrow> map_of c ''original_name'' \<noteq> None
     | _ \<Rightarrow> False)"

text \<open>The classifications that carry a given category, in order.\<close>

definition with_category :: "string \<Rightarrow> (string \<times> py) list list \<Rightarrow> (string \<times> py) list list" where
  "with_category label cs = filter (\<lambda>c. map_of c ''category'' = Some (PStr label)) cs"

text \<open>What pandas guarantees of \<^verbatim>\<open>sample\<close> without replacement: \<open>n\<close> of the values.\<close>

definition sampler_ok :: "env \<Rightarrow> bool" where
  "sampler_ok E = (\<forall>seed xs n. n \<le> length xs \<longrightarrow>
      length (random_sample E seed xs n) = n \<and> set (random_sample E seed xs n) \<subseteq> set xs)"

text \<open>What Python guarantees of \<^verbatim>\<open>list(set(ys))\<close>: each element of \<open>ys\<close> once, in some order.\<close>

definition iteration_ok :: "env \<Rightarrow> bool" where
  "iteration_ok E = (\<forall>ys. distinct (set_iteration E ys) \<and> set (set_iteration E ys) = set ys)"

text \<open>The strings that go into the set: the first five values and the sampled ones.\<close>

definition stringified :: "env \<Rightarrow> py list \<Rightarrow> string list" where
  "stringified E xs = map (py_str E) (take 5 xs @ random_sample E 1 xs (min 5 (length xs)))"

text \<open>A cell that is a non-empty string.\<close>

definition nonempty_str :: "py \<Rightarrow> bool" where
  "nonempty_str v = (case v of PStr s \<Rightarrow> s \<noteq> [] | _ \<Rightarrow> False)"

text \<open>Definitions unfolded when the functions are evaluated on concrete inputs.\<close>

lemmas eval_defs = CONFIDENCE_THRESHOLD_def process_column_def process_department_def
  example_env_def example_format_def last_values_def
  dropna_def isna_def classify_column_def classify_department_def classify_try_def
  confidence_gate_def create_column_prompt_def create_department_prompt_def sample_values_def
  py_str_def py_or_def strip_def isspace_def Let_def

section \<open>The classification client\<close>

lemma classify_try_chat_fails:
  "ollama_chat E p = Inl e \<Longrightarrow> classify_try E label p = Inl e"
  by (simp add: classify_try_def)

lemma classify_try_malformed:
  "ollama_chat E p = Inr content \<Longrightarrow> json_loads E content = Inl e \<Longrightarrow> classify_try E label p = Inl e"
  by (simp add: classify_try_def)

lemma classify_try_missing_key:
  "ollama_chat E p = Inr content \<Longrightarrow> json_loads E content = Inr (PDict d)
   \<Longrightarrow> map_of d label = None \<or> map_of d ''confidence'' = None
   \<Longrightarrow> classify_try E label p = Inl ValueError"
  by (auto simp add: classify_try_def)

lemma classify_try_dict:
  "ollama_chat E p = Inr content \<Longrightarrow> json_loads E content = Inr (PDict d)
   \<Longrightarrow> map_of d label \<noteq> None \<Longrightarrow> map_of d ''confidence'' \<noteq> None
   \<Longrightarrow> classify_try E label p = Inr (PDict d)"
  by (auto simp add: classify_try_def)

text \<open>A reply that parses to a dict with both keys is returned as it is.\<close>

lemma classify_column_valid_reply:
  "ollama_chat E p = Inr content \<Longrightarrow> json_loads E content = Inr (PDict d)
   \<Longrightarrow> map_of d ''category'' \<noteq> None \<Longrightarrow> map_of d ''confidence'' \<noteq> None
   \<Longrightarrow> classify_column E p = Inr (PDict d)"
  by (simp add: classify_column_def classify_try_dict)

lemma classify_department_valid_reply:
  "ollama_chat E p = Inr content \<Longrightarrow> json_loads E content = Inr (PDict d)
   \<Longrightarrow> map_of d ''department'' \<noteq> None \<Longrightarrow> map_of d ''confidence'' \<noteq> None
   \<Longrightarrow> classify_department E p = Inr (PDict d)"
  by (simp add: classify_department_def classify_try_dict)

text \<open>
  What the two methods do guarantee: for every environment and prompt they return a value.
  When the transport fails, when the reply is not valid JSON, or when the parsed reply is
  an object that lacks one of the two expected keys, the value is the fallback payload
  with label \<^verbatim>\<open>OTHER\<close> and confidence 0.0.
\<close>

theorem classify_never_raises:
  "(\<exists>r. classify_column E p = Inr r) \<and> (\<exists>r. classify_department E p = Inr r)
   \<and> ((\<exists>e. ollama_chat E p = Inl e) \<longrightarrow>
         classify_column E p = Inr fallback_column
         \<and> classify_department E p = Inr fallback_department)
   \<and> (\<forall>content. ollama_chat E p = Inr content \<longrightarrow> (\<exists>e. json_loads E content = Inl e) \<longrightarrow>
         classify_column E p = Inr fallback_column
         \<and> classify_department E p = Inr fallback_department)
   \<and> (\<forall>content d. ollama_chat E p = Inr content \<longrightarrow> json_loads E content = Inr (PDict d) \<longrightarrow>
         (map_of d ''category'' = None \<or> map_of d ''confidence'' = None \<longrightarrow>
            classify_column E p = Inr fallback_column)
         \<and> (map_of d ''department'' = None \<or> map_of d ''confidence'' = None \<longrightarrow>
            classify_department E p = Inr fallback_department))"
proof (intro conjI allI impI)
  show "\<exists>r. classify_column E p = Inr r"
    by (simp add: classify_column_def split: sum.split)
  show "\<exists>r. classify_department E p = Inr r"
    by (simp add: classify_department_def split: sum.split)
next
  assume "\<exists>e. ollama_chat E p = Inl e"
  then obtain e where e: "ollama_chat E p = Inl e" ..
  show "classify_column E p = Inr fallback_column"
    by (simp add: classify_column_def classify_try_chat_fails [OF e])
  show "classify_department E p = Inr fallback_department"
    by (simp add: classify_department_def classify_try_chat_fails [OF e])
next
  fix content
  assume c: "ollama_chat E p = Inr content" and "\<exists>e. json_loads E content = Inl e"
  then obtain e where e: "json_loads E content = Inl e" by blast
  show "classify_column E p = Inr fallback_column"
    by (simp add: classify_column_def classify_try_malformed [OF c e])
  show "classify_department E p = Inr fallback_department"
    by (simp add: classify_department_def classify_try_malformed [OF c e])
next
  fix content d
  assume c: "ollama_chat E p = Inr content" and d: "json_loads E content = Inr (PDict d)"
  { assume m: "map_of d ''category'' = None \<or> map_of d ''confidence'' = None"
    show "classify_column E p = Inr fallback_column"
      by (simp add: classify_column_def classify_try_missing_key [OF c d m]) }
  { assume m: "map_of d ''department'' = None \<or> map_of d ''confidence'' = None"
    show "classify_department E p = Inr fallback_department"
      by (simp add: classify_department_def classify_try_missing_key [OF c d m]) }
qed

theorem classify_never_raises_witness:
  "classify_column (example_env (Inl TransportError) (Inl JSONDecodeError))
      (ColumnPrompt ''Dept'' ''object'' [''IT''] COLUMN_CATEGORIES) = Inr fallback_column
   \<and> classify_department (example_env (Inr ''{category: '') (Inl JSONDecodeError))
      (DepartmentPrompt ''infer from content'' None (PStr ''Server down'') (PStr ''N/A'') FIXED_DEPARTMENTS) = Inr fallback_department
   \<and> classify_column (example_env (Inr ''{}'') (Inr (PDict [(''confidence'', PFloat (Finite (3 / 4)))])))
      (ColumnPrompt ''Dept'' ''object'' [''IT''] COLUMN_CATEGORIES) = Inr fallback_column"
  using classify_never_raises [of "example_env (Inl TransportError) (Inl JSONDecodeError)"
          "ColumnPrompt ''Dept'' ''object'' [''IT''] COLUMN_CATEGORIES"]
        classify_never_raises [of "example_env (Inr ''{category: '') (Inl JSONDecodeError)"
          "DepartmentPrompt ''infer from content'' None (PStr ''Server down'') (PStr ''N/A'') FIXED_DEPARTMENTS"]
        classify_never_raises [of "example_env (Inr ''{}'') (Inr (PDict [(''confidence'', PFloat (Finite (3 / 4)))]))"
          "ColumnPrompt ''Dept'' ''object'' [''IT''] COLUMN_CATEGORIES"]
  by (simp add: example_env_def)

text \<open>
  The value is the fallback unless both tests \<^verbatim>\<open>in\<close> succeed on the parsed reply, and then
  it is the parsed reply, whatever its type.
\<close>

lemma classify_column_cases:
  "classify_column E p = Inr r \<Longrightarrow>
     r = fallback_column
   \<or> (\<exists>content. ollama_chat E p = Inr content \<and> json_loads E content = Inr r
         \<and> py_in ''category'' r = Inr True \<and> py_in ''confidence'' r = Inr True)"
  by (auto simp add: classify_column_def classify_try_def split: sum.splits if_splits)

lemma classify_department_cases:
  "classify_department E p = Inr r \<Longrightarrow>
     r = fallback_department
   \<or> (\<exists>content. ollama_chat E p = Inr content \<and> json_loads E content = Inr r
         \<and> py_in ''department'' r = Inr True \<and> py_in ''confidence'' r = Inr True)"
  by (auto simp add: classify_department_def classify_try_def split: sum.splits if_splits)

text \<open>
  Replies that are not objects: a string is tested for the key names as substrings, a list
  for the key names as elements, and a number or \<^verbatim>\<open>null\<close> makes \<^verbatim>\<open>in\<close> raise TypeError.
\<close>

lemma classify_other_replies:
  "classify_column (example_env (Inr ''reply'') (Inr (PStr ''category, confidence''))) p
     = Inr (PStr ''category, confidence'')"
  "classify_column (example_env (Inr ''reply'') (Inr (PStr ''title''))) p = Inr fallback_column"
  "classify_column (example_env (Inr ''reply'') (Inr (PList [PStr ''category'']))) p
     = Inr fallback_column"
  "classify_column (example_env (Inr ''reply'') (Inr (PInt 5))) p = Inr fallback_column"
  "classify_department (example_env (Inr ''reply'') (Inr PNone)) p = Inr fallback_department"
  by (simp_all add: classify_column_def classify_department_def classify_try_def example_env_def
        sublist_code)

text \<open>
  Claim C2 asks for the fallback payload whenever the reply lacks the expected keys. At a
  reply that is the JSON array of the two key names, the test \<^verbatim>\<open>'category' not in result\<close>
  is a test of list membership and passes: \<open>classify_column\<close> returns the list itself and
  not the fallback, against its docstring (a dictionary with both keys), and
  \<open>process_column\<close> then raises TypeError at \<^verbatim>\<open>result['confidence']\<close>. The same holds of
  \<open>classify_department\<close> and \<open>process_department\<close>.
\<close>

theorem classify_key_names_reply:
  "classify_column (example_env (Inr ''reply'') (Inr key_names_column))
       (ColumnPrompt ''Summary'' ''object'' [''Server down'', ''Budget review''] COLUMN_CATEGORIES)
     = Inr (PList [PStr ''category'', PStr ''confidence''])
   \<and> Inr (PList [PStr ''category'', PStr ''confidence'']) \<noteq> (Inr fallback_column :: exn + py)
   \<and> snd (process_column (example_env (Inr ''reply'') (Inr key_names_column))
             example_column ''Summary'' COLUMN_CATEGORIES) = Inl TypeError
   \<and> classify_department (example_env (Inr ''reply'') (Inr key_names_department))
       (DepartmentPrompt ''normalize and map'' (Some (PStr ''Fin.'')) (PStr ''Budget review'')
          (PStr ''N/A'') FIXED_DEPARTMENTS)
     = Inr (PList [PStr ''department'', PStr ''confidence''])
   \<and> Inr (PList [PStr ''department'', PStr ''confidence'']) \<noteq> (Inr fallback_department :: exn + py)
   \<and> snd (process_department (example_env (Inr ''reply'') (Inr key_names_department))
             0 (PStr ''Fin.'') (PStr ''Budget review'') PNone FIXED_DEPARTMENTS) = Inl TypeError"
  by (simp add: eval_defs example_column_def key_names_column_def key_names_department_def
        fallback_column_def fallback_department_def)

section \<open>Basic facts about the processing functions\<close>

lemma field_dict [simp]: "field k (Inr (PDict d)) = map_of d k"
  by (simp add: field_def)

lemma confidence_gate_low:
  "map_of d ''confidence'' = Some c \<Longrightarrow> py_lt c CONFIDENCE_THRESHOLD = Inr True \<Longrightarrow>
   confidence_gate E label (PDict d) =
     Inr (PDict (AList.update ''reason'' (PStr (''Low confidence ('' @ py_str E c @ '')''))
                (AList.update ''needs_manual_review'' (PBool True)
                (AList.update label (PStr ''OTHER'') d))))"
  by (simp add: confidence_gate_def)

lemma confidence_gate_high:
  "map_of d ''confidence'' = Some c \<Longrightarrow> py_lt c CONFIDENCE_THRESHOLD = Inr False \<Longrightarrow>
   confidence_gate E label (PDict d) =
     Inr (PDict (AList.update ''needs_manual_review'' (PBool False) d))"
  by (simp add: confidence_gate_def)

lemma process_column_called:
  assumes "fst (process_column E df_column column_name categories) = [p]"
    and "classify_column E p = Inr r"
  shows "snd (process_column E df_column column_name categories) = confidence_gate E ''category'' r"
  using assms
  by (auto simp add: process_column_def Let_def split: if_splits sum.splits)

lemma process_department_called:
  assumes "fst (process_department E row_index department_value title description departments) = [p]"
    and "classify_department E p = Inr (PDict d)"
    and "map_of d ''department'' = Some dep"
  shows "snd (process_department E row_index department_value title description departments) =
           confidence_gate E ''suggested'' (PDict (with_metadata E row_index department_value dep d))"
  using assms
  by (auto simp add: process_department_def with_metadata_def Let_def update_conv'
           split: if_splits sum.splits)

lemma classify_try_dict_keys:
  "classify_try E label p = Inr (PDict d) \<Longrightarrow> map_of d label \<noteq> None \<and> map_of d ''confidence'' \<noteq> None"
  by (auto simp add: classify_try_def split: sum.splits if_splits)

lemma classify_column_dict_keys:
  "classify_column E p = Inr (PDict d) \<Longrightarrow> map_of d ''category'' \<noteq> None \<and> map_of d ''confidence'' \<noteq> None"
  by (auto simp add: classify_column_def fallback_column_def split: sum.splits dest: classify_try_dict_keys)

lemma classify_department_dict_keys:
  "classify_department E p = Inr (PDict d) \<Longrightarrow> map_of d ''department'' \<noteq> None \<and> map_of d ''confidence'' \<noteq> None"
  by (auto simp add: classify_department_def fallback_department_def split: sum.splits dest: classify_try_dict_keys)

lemma with_metadata_confidence:
  "map_of (with_metadata E i dv dep d) ''confidence'' = map_of d ''confidence''"
  by (simp add: with_metadata_def update_conv')

section \<open>Empty columns\<close>

text \<open>
  Claim C3. For a column without non-missing values \<open>process_column\<close> returns exactly the
  dict with category \<^verbatim>\<open>OTHER\<close>, confidence 0.0, needs\_manual\_review true and reason
  \<^verbatim>\<open>Column is empty\<close>, and the list of prompts sent to the client is empty.
\<close>

theorem empty_column:
  "dropna (cells df_column) = [] \<Longrightarrow>
   process_column E df_column column_name categories =
     ([], Inr (PDict [(''category'', PStr ''OTHER''), (''confidence'', PFloat (Finite 0)),
                      (''needs_manual_review'', PBool True),
                      (''reason'', PStr ''Column is empty'')]))"
  by (simp add: process_column_def)

theorem empty_column_witness:
  "dropna (cells \<lparr>dtype = ''float64'', cells = [PNone, PFloat NaN, PNone]\<rparr>) = []
   \<and> process_column (example_env (Inl TransportError) (Inl JSONDecodeError))
       \<lparr>dtype = ''float64'', cells = [PNone, PFloat NaN, PNone]\<rparr> ''Notes'' COLUMN_CATEGORIES =
     ([], Inr (PDict [(''category'', PStr ''OTHER''), (''confidence'', PFloat (Finite 0)),
                      (''needs_manual_review'', PBool True),
                      (''reason'', PStr ''Column is empty'')]))"
proof -
  have h: "dropna (cells \<lparr>dtype = ''float64'', cells = [PNone, PFloat NaN, PNone]\<rparr>) = []"
    by (simp add: dropna_def isna_def)
  show ?thesis
    using h empty_column [OF h] by simp
qed

lemma nonempty_column_calls_once:
  "dropna (cells df_column) \<noteq> [] \<Longrightarrow>
   fst (process_column E df_column column_name categories) =
     [create_column_prompt column_name (dtype df_column)
        (sample_values E (dropna (cells df_column))) categories]"
  by (simp add: process_column_def Let_def split: sum.split)

section \<open>When the processing functions return\<close>

lemma strip_Nil [simp]: "strip [] = []"
  by (simp add: strip_def)

lemma classify_column_total: "\<exists>r. classify_column E p = Inr r"
  by (simp add: classify_column_def split: sum.split)


lemma confidence_gate_returns:
  assumes "confidence_gate E label x = Inr r"
  obtains d c low where "x = PDict d" "map_of d ''confidence'' = Some c"
    "py_lt c CONFIDENCE_THRESHOLD = Inr low"
  using assms
  by (auto simp add: confidence_gate_def split: py.splits option.splits sum.splits)

lemma process_column_returns:
  assumes "snd (process_column E df_column column_name categories) = Inr r"
    and "dropna (cells df_column) \<noteq> []"
  obtains p d c low where "fst (process_column E df_column column_name categories) = [p]"
    "classify_column E p = Inr (PDict d)" "map_of d ''confidence'' = Some c"
    "py_lt c CONFIDENCE_THRESHOLD = Inr low"
proof -
  let ?p = "create_column_prompt column_name (dtype df_column)
              (sample_values E (dropna (cells df_column))) categories"
  have f: "fst (process_column E df_column column_name categories) = [?p]"
    using assms(2) by (simp add: process_column_def Let_def split: sum.split)
  obtain x where x: "classify_column E ?p = Inr x"
    using classify_column_total by blast
  have "snd (process_column E df_column column_name categories) = confidence_gate E ''category'' x"
    using f x by (rule process_column_called)
  with assms(1) have "confidence_gate E ''category'' x = Inr r" by simp
  then obtain d c low where "x = PDict d" "map_of d ''confidence'' = Some c"
    "py_lt c CONFIDENCE_THRESHOLD = Inr low"
    by (rule confidence_gate_returns)
  with f x that show thesis by blast
qed


lemma confidence_gate_frame:
  assumes "confidence_gate E label (PDict m) = Inr r"
    and "k \<noteq> label" "k \<noteq> ''needs_manual_review''" "k \<noteq> ''reason''"
  shows "field k (Inr r) = map_of m k"
  using assms
  by (auto simp add: confidence_gate_def update_conv' split: option.splits sum.splits if_splits)

section \<open>The confidence gate\<close>

text \<open>
  Claim C1, as stated, at a reply that carries a key of its own named \<^verbatim>\<open>reason\<close>: the
  confidence 0.75 is not below the threshold, and the result of \<open>process_column\<close> has a
  reason, the one of the reply. The functions return the dict of the reply itself, so
  every key of the reply that they do not assign is passed through.
\<close>

theorem gate_reason_counterexample:
  "py_lt (PFloat (Finite (3 / 4))) CONFIDENCE_THRESHOLD = Inr False
   \<and> field ''confidence''
        (snd (process_column (example_env (Inr ''reply'') (Inr reply_with_reason))
                example_column ''Summary'' COLUMN_CATEGORIES)) = Some (PFloat (Finite (3 / 4)))
   \<and> field ''reason''
        (snd (process_column (example_env (Inr ''reply'') (Inr reply_with_reason))
                example_column ''Summary'' COLUMN_CATEGORIES)) = Some (PStr ''looks like a title'')"
  by (simp add: eval_defs example_column_def reply_with_reason_def)

text \<open>
  Claim C1, amended. Let the client return a dict with confidence \<open>c\<close>, and let \<open>low\<close> be
  the outcome of \<^verbatim>\<open>c < CONFIDENCE_THRESHOLD\<close>. If \<open>low\<close> holds, the category (resp. the
  suggested department) of the result is \<^verbatim>\<open>OTHER\<close>, needs\_manual\_review is true and the
  reason is \<^verbatim>\<open>Low confidence (c)\<close>. Otherwise the category (resp. the suggested department)
  is exactly the label of the client, needs\_manual\_review is false, and the functions set
  no reason: the result has a reason only if the dict of the client had one, and then
  that one. (Numbers are never incomparable with the threshold except NaN, for which
  \<open>low\<close> is false.)
\<close>

theorem confidence_gate_results:
  "(fst (process_column E df_column column_name categories) = [p]
      \<and> classify_column E p = Inr (PDict d) \<and> map_of d ''confidence'' = Some c
      \<and> py_lt c CONFIDENCE_THRESHOLD = Inr low \<longrightarrow>
      (low \<longrightarrow>
         field ''category'' (snd (process_column E df_column column_name categories)) = Some (PStr ''OTHER'')
       \<and> field ''needs_manual_review'' (snd (process_column E df_column column_name categories)) = Some (PBool True)
       \<and> field ''reason'' (snd (process_column E df_column column_name categories))
           = Some (PStr (''Low confidence ('' @ py_str E c @ '')'')))
    \<and> (\<not> low \<longrightarrow>
         field ''category'' (snd (process_column E df_column column_name categories)) = map_of d ''category''
       \<and> map_of d ''category'' \<noteq> None
       \<and> field ''needs_manual_review'' (snd (process_column E df_column column_name categories)) = Some (PBool False)
       \<and> field ''reason'' (snd (process_column E df_column column_name categories)) = map_of d ''reason''))
   \<and> (fst (process_department E row_index department_value title description departments) = [q]
      \<and> classify_department E q = Inr (PDict d') \<and> map_of d' ''confidence'' = Some c'
      \<and> py_lt c' CONFIDENCE_THRESHOLD = Inr low' \<longrightarrow>
      (low' \<longrightarrow>
         field ''suggested'' (snd (process_department E row_index department_value title description departments))
           = Some (PStr ''OTHER'')
       \<and> field ''needs_manual_review'' (snd (process_department E row_index department_value title description departments))
           = Some (PBool True)
       \<and> field ''reason'' (snd (process_department E row_index department_value title description departments))
           = Some (PStr (''Low confidence ('' @ py_str E c' @ '')'')))
    \<and> (\<not> low' \<longrightarrow>
         field ''suggested'' (snd (process_department E row_index department_value title description departments))
           = map_of d' ''department''
       \<and> map_of d' ''department'' \<noteq> None
       \<and> field ''needs_manual_review'' (snd (process_department E row_index department_value title description departments))
           = Some (PBool False)
       \<and> field ''reason'' (snd (process_department E row_index department_value title description departments))
           = map_of d' ''reason''))"
proof (intro conjI impI)
  assume a: "fst (process_column E df_column column_name categories) = [p]
      \<and> classify_column E p = Inr (PDict d) \<and> map_of d ''confidence'' = Some c
      \<and> py_lt c CONFIDENCE_THRESHOLD = Inr low"
  then have r: "snd (process_column E df_column column_name categories)
                  = confidence_gate E ''category'' (PDict d)"
    by (simp add: process_column_called)
  from a have k: "map_of d ''category'' \<noteq> None"
    using classify_column_dict_keys [of E p d] by blast
  { assume low
    with a have g: "confidence_gate E ''category'' (PDict d) =
        Inr (PDict (AList.update ''reason'' (PStr (''Low confidence ('' @ py_str E c @ '')''))
                (AList.update ''needs_manual_review'' (PBool True)
                (AList.update ''category'' (PStr ''OTHER'') d))))"
      by (simp add: confidence_gate_low)
    show "field ''category'' (snd (process_column E df_column column_name categories)) = Some (PStr ''OTHER'')"
      by (simp add: r g update_conv')
    show "field ''needs_manual_review'' (snd (process_column E df_column column_name categories)) = Some (PBool True)"
      by (simp add: r g update_conv')
    show "field ''reason'' (snd (process_column E df_column column_name categories))
           = Some (PStr (''Low confidence ('' @ py_str E c @ '')''))"
      by (simp add: r g update_conv') }
  { assume "\<not> low"
    with a have g: "confidence_gate E ''category'' (PDict d) =
        Inr (PDict (AList.update ''needs_manual_review'' (PBool False) d))"
      by (simp add: confidence_gate_high)
    show "field ''category'' (snd (process_column E df_column column_name categories)) = map_of d ''category''"
      by (simp add: r g update_conv')
    show "map_of d ''category'' \<noteq> None" by (rule k)
    show "field ''needs_manual_review'' (snd (process_column E df_column column_name categories)) = Some (PBool False)"
      by (simp add: r g update_conv')
    show "field ''reason'' (snd (process_column E df_column column_name categories)) = map_of d ''reason''"
      by (simp add: r g update_conv') }
next
  assume a: "fst (process_department E row_index department_value title description departments) = [q]
      \<and> classify_department E q = Inr (PDict d') \<and> map_of d' ''confidence'' = Some c'
      \<and> py_lt c' CONFIDENCE_THRESHOLD = Inr low'"
  then have "map_of d' ''department'' \<noteq> None"
    using classify_department_dict_keys [of E q d'] by blast
  then obtain dep where dep: "map_of d' ''department'' = Some dep" by blast
  let ?R = "snd (process_department E row_index department_value title description departments)"
  let ?m = "with_metadata E row_index department_value dep d'"
  from a dep have r: "?R = confidence_gate E ''suggested'' (PDict ?m)"
    by (simp add: process_department_called)
  have c: "map_of ?m ''confidence'' = Some c'"
    using a by (simp add: with_metadata_confidence)
  have s: "map_of ?m ''suggested'' = Some dep"
    by (simp add: with_metadata_def update_conv')
  have rs: "map_of ?m ''reason'' = map_of d' ''reason''"
    by (simp add: with_metadata_def update_conv')
  { assume low'
    with a c have g: "confidence_gate E ''suggested'' (PDict ?m) =
        Inr (PDict (AList.update ''reason'' (PStr (''Low confidence ('' @ py_str E c' @ '')''))
                (AList.update ''needs_manual_review'' (PBool True)
                (AList.update ''suggested'' (PStr ''OTHER'') ?m))))"
      by (simp add: confidence_gate_low)
    show "field ''suggested'' ?R = Some (PStr ''OTHER'')"
      by (simp add: r g update_conv')
    show "field ''needs_manual_review'' ?R = Some (PBool True)"
      by (simp add: r g update_conv')
    show "field ''reason'' ?R = Some (PStr (''Low confidence ('' @ py_str E c' @ '')''))"
      by (simp add: r g update_conv') }
  { assume "\<not> low'"
    with a c have g: "confidence_gate E ''suggested'' (PDict ?m) =
        Inr (PDict (AList.update ''needs_manual_review'' (PBool False) ?m))"
      by (simp add: confidence_gate_high)
    show "field ''suggested'' ?R = map_of d' ''department''"
      by (simp add: r g update_conv' s dep)
    show "map_of d' ''department'' \<noteq> None" by (simp add: dep)
    show "field ''needs_manual_review'' ?R = Some (PBool False)"
      by (simp add: r g update_conv')
    show "field ''reason'' ?R = map_of d' ''reason''"
      by (simp add: r g update_conv' rs) }
qed

theorem confidence_gate_results_witness:
  "field ''category'' (snd (process_column (example_env (Inr ''reply'') (Inr reply_low))
       example_column ''Summary'' COLUMN_CATEGORIES)) = Some (PStr ''OTHER'')
   \<and> field ''reason'' (snd (process_column (example_env (Inr ''reply'') (Inr reply_low))
       example_column ''Summary'' COLUMN_CATEGORIES)) = Some (PStr ''Low confidence (0.25)'')
   \<and> field ''suggested'' (snd (process_department (example_env (Inr ''reply'') (Inr reply_low))
       0 (PStr ''Fin.'') (PStr ''Budget review'') PNone FIXED_DEPARTMENTS)) = Some (PStr ''OTHER'')
   \<and> field ''category'' (snd (process_column (example_env (Inr ''reply'') (Inr reply_high))
       example_column ''Summary'' COLUMN_CATEGORIES)) = Some (PStr ''title'')
   \<and> field ''reason'' (snd (process_column (example_env (Inr ''reply'') (Inr reply_high))
       example_column ''Summary'' COLUMN_CATEGORIES)) = None
   \<and> field ''suggested'' (snd (process_department (example_env (Inr ''reply'') (Inr reply_high))
       0 (PStr ''Fin.'') (PStr ''Budget review'') PNone FIXED_DEPARTMENTS)) = Some (PStr ''Finance'')"
  using confidence_gate_results [where E = "example_env (Inr ''reply'') (Inr reply_low)"
      and df_column = example_column and column_name = "''Summary''"
      and categories = COLUMN_CATEGORIES
      and p = "ColumnPrompt ''Summary'' ''object'' [''Server down'', ''Budget review''] COLUMN_CATEGORIES"
      and d = "[(''department'', PStr ''Finance''), (''category'', PStr ''title''), (''confidence'', PFloat (Finite (1 / 4)))]"
      and c = "PFloat (Finite (1 / 4))" and low = True
      and row_index = 0 and department_value = "PStr ''Fin.''" and title = "PStr ''Budget review''"
      and description = PNone and departments = FIXED_DEPARTMENTS
      and q = "DepartmentPrompt ''normalize and map'' (Some (PStr ''Fin.'')) (PStr ''Budget review'') (PStr ''N/A'') FIXED_DEPARTMENTS"
      and d' = "[(''department'', PStr ''Finance''), (''category'', PStr ''title''), (''confidence'', PFloat (Finite (1 / 4)))]"
      and c' = "PFloat (Finite (1 / 4))" and low' = True]
    confidence_gate_results [where E = "example_env (Inr ''reply'') (Inr reply_high)"
      and df_column = example_column and column_name = "''Summary''"
      and categories = COLUMN_CATEGORIES
      and p = "ColumnPrompt ''Summary'' ''object'' [''Server down'', ''Budget review''] COLUMN_CATEGORIES"
      and d = "[(''department'', PStr ''Finance''), (''category'', PStr ''title''), (''confidence'', PFloat (Finite (3 / 4)))]"
      and c = "PFloat (Finite (3 / 4))" and low = False
      and row_index = 0 and department_value = "PStr ''Fin.''" and title = "PStr ''Budget review''"
      and description = PNone and departments = FIXED_DEPARTMENTS
      and q = "DepartmentPrompt ''normalize and map'' (Some (PStr ''Fin.'')) (PStr ''Budget review'') (PStr ''N/A'') FIXED_DEPARTMENTS"
      and d' = "[(''department'', PStr ''Finance''), (''category'', PStr ''title''), (''confidence'', PFloat (Finite (3 / 4)))]"
      and c' = "PFloat (Finite (3 / 4))" and low' = False]
  by (simp add: eval_defs example_column_def reply_low_def reply_high_def)

section \<open>Category labels\<close>

text \<open>
  Claim C9, as stated, at a reply whose label is not in the taxonomy: with confidence 0.75
  the result of \<open>process_column\<close> carries the label \<^verbatim>\<open>severity\<close>, which is none of the
  ten entries of \<open>COLUMN_CATEGORIES\<close>. Neither the client nor \<open>process_column\<close> compares
  a label with the taxonomy.
\<close>

theorem taxonomy_counterexample:
  "field ''category''
     (snd (process_column (example_env (Inr ''reply'') (Inr reply_severity))
             example_column ''Rating'' COLUMN_CATEGORIES)) = Some (PStr ''severity'')
   \<and> ''severity'' \<notin> set COLUMN_CATEGORIES"
  by (simp add: eval_defs example_column_def reply_severity_def COLUMN_CATEGORIES_def)

text \<open>
  Claim C9, amended. The category of every result of \<open>process_column\<close> is \<^verbatim>\<open>OTHER\<close>, or
  else the confidence the client returned is not below the threshold and the category is
  exactly the label the client returned (so it is an entry of the taxonomy whenever the
  label of the client is one).
\<close>

theorem category_other_or_client_label:
  "snd (process_column E df_column column_name categories) = Inr r \<Longrightarrow>
     field ''category'' (Inr r) = Some (PStr ''OTHER'')
   \<or> (\<exists>p d c. fst (process_column E df_column column_name categories) = [p]
         \<and> classify_column E p = Inr (PDict d)
         \<and> map_of d ''confidence'' = Some c \<and> py_lt c CONFIDENCE_THRESHOLD = Inr False
         \<and> map_of d ''category'' \<noteq> None
         \<and> field ''category'' (Inr r) = map_of d ''category'')"
proof (cases "dropna (cells df_column) = []")
  case True
  assume "snd (process_column E df_column column_name categories) = Inr r"
  with True show ?thesis
    by (auto simp add: process_column_def)
next
  case False
  assume a: "snd (process_column E df_column column_name categories) = Inr r"
  from a False obtain p d c low where
    f: "fst (process_column E df_column column_name categories) = [p]"
    and x: "classify_column E p = Inr (PDict d)"
    and c: "map_of d ''confidence'' = Some c"
    and l: "py_lt c CONFIDENCE_THRESHOLD = Inr low"
    by (rule process_column_returns)
  have g: "confidence_gate E ''category'' (PDict d) = Inr r"
    using process_column_called [OF f x] a by simp
  show ?thesis
  proof (cases low)
    case True
    with c l g have "field ''category'' (Inr r) = Some (PStr ''OTHER'')"
      by (auto simp add: confidence_gate_low update_conv')
    then show ?thesis ..
  next
    case False
    with c l g have "field ''category'' (Inr r) = map_of d ''category''"
      by (auto simp add: confidence_gate_high update_conv')
    moreover have "map_of d ''category'' \<noteq> None"
      using classify_column_dict_keys [OF x] by simp
    moreover have "py_lt c CONFIDENCE_THRESHOLD = Inr False"
      using l False by simp
    ultimately show ?thesis
      using f x c by blast
  qed
qed

theorem category_other_or_client_label_witness:
  "snd (process_column (example_env (Inr ''reply'') (Inr reply_severity))
          example_column ''Rating'' COLUMN_CATEGORIES) =
     Inr (PDict [(''category'', PStr ''severity''), (''confidence'', PFloat (Finite (3 / 4))),
                 (''needs_manual_review'', PBool False)])
   \<and> classify_column (example_env (Inr ''reply'') (Inr reply_severity))
        (ColumnPrompt ''Rating'' ''object'' [''Server down'', ''Budget review''] COLUMN_CATEGORIES)
       = Inr reply_severity"
proof -
  have h: "snd (process_column (example_env (Inr ''reply'') (Inr reply_severity))
          example_column ''Rating'' COLUMN_CATEGORIES) =
     Inr (PDict [(''category'', PStr ''severity''), (''confidence'', PFloat (Finite (3 / 4))),
                 (''needs_manual_review'', PBool False)])"
    by (simp add: eval_defs example_column_def reply_severity_def)
  show ?thesis
    using category_other_or_client_label [OF h] h
    by (simp add: classify_column_def classify_try_def example_env_def reply_severity_def)
qed

section \<open>Department results\<close>





text \<open>
  Claim C10. When the confidence of the client is below the threshold, the result of
  \<open>process_department\<close> keeps under \<^verbatim>\<open>department\<close> and \<^verbatim>\<open>confidence\<close> exactly the values
  the client returned, next to \<^verbatim>\<open>suggested = OTHER\<close>. Every key other than
  \<^verbatim>\<open>suggested\<close>, \<^verbatim>\<open>needs_manual_review\<close> and \<^verbatim>\<open>reason\<close> has the value it had before the
  gate, and every key that is not metadata either has the value of the client.
\<close>

theorem downgrade_keeps_department:
  "fst (process_department E row_index department_value title description departments) = [q]
   \<and> classify_department E q = Inr (PDict d) \<and> map_of d ''confidence'' = Some c
   \<and> py_lt c CONFIDENCE_THRESHOLD = Inr True \<longrightarrow>
   (\<exists>dep. map_of d ''department'' = Some dep
      \<and> field ''department'' (snd (process_department E row_index department_value title description departments))
          = Some dep
      \<and> field ''confidence'' (snd (process_department E row_index department_value title description departments))
          = Some c
      \<and> field ''suggested'' (snd (process_department E row_index department_value title description departments))
          = Some (PStr ''OTHER'')
      \<and> (\<forall>k. k \<notin> {''suggested'', ''needs_manual_review'', ''reason''} \<longrightarrow>
            field k (snd (process_department E row_index department_value title description departments))
              = map_of (with_metadata E row_index department_value dep d) k)
      \<and> (\<forall>k. k \<notin> {''row'', ''original'', ''suggested'', ''source'', ''needs_manual_review'', ''reason''} \<longrightarrow>
            field k (snd (process_department E row_index department_value title description departments))
              = map_of d k))"
proof
  let ?R = "snd (process_department E row_index department_value title description departments)"
  assume a: "fst (process_department E row_index department_value title description departments) = [q]
   \<and> classify_department E q = Inr (PDict d) \<and> map_of d ''confidence'' = Some c
   \<and> py_lt c CONFIDENCE_THRESHOLD = Inr True"
  then have "map_of d ''department'' \<noteq> None"
    using classify_department_dict_keys [of E q d] by blast
  then obtain dep where dep: "map_of d ''department'' = Some dep" by blast
  let ?m = "with_metadata E row_index department_value dep d"
  from a dep have r: "?R = confidence_gate E ''suggested'' (PDict ?m)"
    by (simp add: process_department_called)
  have mc: "map_of ?m ''confidence'' = Some c"
    using a by (simp add: with_metadata_confidence)
  obtain r' where g: "confidence_gate E ''suggested'' (PDict ?m) = Inr r'"
    using confidence_gate_low [OF mc, of E "''suggested''"] a by simp
  have frame: "field k ?R = map_of ?m k"
    if "k \<noteq> ''suggested''" "k \<noteq> ''needs_manual_review''" "k \<noteq> ''reason''" for k
    unfolding r g using g that by (rule confidence_gate_frame)
  have meta: "map_of ?m k = map_of d k"
    if "k \<noteq> ''row''" "k \<noteq> ''original''" "k \<noteq> ''suggested''" "k \<noteq> ''source''" for k
    using that by (simp add: with_metadata_def update_conv')
  have 1: "field ''department'' ?R = Some dep"
    using frame [of "''department''"] meta [of "''department''"] dep by simp
  have 2: "field ''confidence'' ?R = Some c"
    using frame [of "''confidence''"] mc by simp
  have 3: "field ''suggested'' ?R = Some (PStr ''OTHER'')"
    using a mc by (simp add: r confidence_gate_low update_conv')
  have 4: "\<forall>k. k \<notin> {''suggested'', ''needs_manual_review'', ''reason''} \<longrightarrow> field k ?R = map_of ?m k"
    using frame by blast
  have 5: "\<forall>k. k \<notin> {''row'', ''original'', ''suggested'', ''source'', ''needs_manual_review'', ''reason''} \<longrightarrow>
            field k ?R = map_of d k"
    using frame meta by auto
  from dep 1 2 3 4 5 show "\<exists>v. map_of d ''department'' = Some v
      \<and> field ''department'' ?R = Some v \<and> field ''confidence'' ?R = Some c
      \<and> field ''suggested'' ?R = Some (PStr ''OTHER'')
      \<and> (\<forall>k. k \<notin> {''suggested'', ''needs_manual_review'', ''reason''} \<longrightarrow>
            field k ?R = map_of (with_metadata E row_index department_value v d) k)
      \<and> (\<forall>k. k \<notin> {''row'', ''original'', ''suggested'', ''source'', ''needs_manual_review'', ''reason''} \<longrightarrow>
            field k ?R = map_of d k)"
    by blast
qed

theorem downgrade_keeps_department_witness:
  "field ''department'' (snd (process_department (example_env (Inr ''reply'') (Inr reply_low))
       3 PNone (PStr ''Budget review'') PNone FIXED_DEPARTMENTS)) = Some (PStr ''Finance'')
   \<and> field ''confidence'' (snd (process_department (example_env (Inr ''reply'') (Inr reply_low))
       3 PNone (PStr ''Budget review'') PNone FIXED_DEPARTMENTS)) = Some (PFloat (Finite (1 / 4)))
   \<and> field ''suggested'' (snd (process_department (example_env (Inr ''reply'') (Inr reply_low))
       3 PNone (PStr ''Budget review'') PNone FIXED_DEPARTMENTS)) = Some (PStr ''OTHER'')"
  using downgrade_keeps_department [where E = "example_env (Inr ''reply'') (Inr reply_low)"
      and row_index = 3 and department_value = PNone and title = "PStr ''Budget review''"
      and description = PNone and departments = FIXED_DEPARTMENTS
      and q = "DepartmentPrompt ''infer from content'' None (PStr ''Budget review'') (PStr ''N/A'') FIXED_DEPARTMENTS"
      and d = "[(''department'', PStr ''Finance''), (''category'', PStr ''title''), (''confidence'', PFloat (Finite (1 / 4)))]"
      and c = "PFloat (Finite (1 / 4))"]
  by (simp add: eval_defs reply_low_def)

section \<open>Column mapping\<close>

lemma py_key_str: "(py_key k = Some (KStr s)) = (k = PStr s)"
  by (induction k rule: py_key.induct) auto

lemma dict_getitem_setitem_str:
  "dict_getitem (dict_setitem (PStr s) v m) k
     = (if k = PStr s then Some v else dict_getitem m k)"
proof (induction m)
  case Nil
  show ?case
    using py_key_str [of k s] by (auto simp del: py_key.simps simp add: py_key.simps(8))
next
  case (Cons e m)
  obtain k' v' where e: "e = (k', v')" by (cases e)
  show ?case
  proof (cases "k' = PStr s")
    case True
    then show ?thesis
      unfolding e using py_key_str [of k s] by auto
  next
    case False
    then have ne: "py_key k' \<noteq> py_key (PStr s)"
      using py_key_str [of k' s] by simp
    show ?thesis
    proof (cases "k = PStr s")
      case True
      with ne Cons show ?thesis unfolding e by simp
    next
      case False
      with ne Cons show ?thesis unfolding e by simp
    qed
  qed
qed

lemma column_mapping_acc:
  assumes "\<forall>c \<in> set cs. well_formed c"
  shows "\<exists>m'. column_mapping cs m = Inr m'
     \<and> (\<forall>k. \<not> isinstance_str k \<longrightarrow> dict_getitem m' k = dict_getitem m k)
     \<and> dict_getitem m' (PStr ''OTHER'') = dict_getitem m (PStr ''OTHER'')
     \<and> (\<forall>label. label \<noteq> ''OTHER'' \<longrightarrow>
           dict_getitem m' (PStr label) =
             (if with_category label cs = [] then dict_getitem m (PStr label)
              else map_of (last (with_category label cs)) ''original_name''))"
  using assms
proof (induction cs arbitrary: m)
  case Nil
  then show ?case by (simp add: with_category_def)
next
  case (Cons c cs)
  from Cons.prems obtain cat name where c: "map_of c ''category'' = Some (PStr cat)"
    "map_of c ''original_name'' = Some name"
    by (auto simp add: well_formed_def split: option.splits py.splits)
  from Cons.prems have wf: "\<forall>c \<in> set cs. well_formed c" by simp
  show ?case
  proof (cases "cat = ''OTHER''")
    case True
    from Cons.IH [OF wf, of m] obtain m' where m': "column_mapping cs m = Inr m'"
      "\<forall>k. \<not> isinstance_str k \<longrightarrow> dict_getitem m' k = dict_getitem m k"
      "dict_getitem m' (PStr ''OTHER'') = dict_getitem m (PStr ''OTHER'')"
      "\<forall>label. label \<noteq> ''OTHER'' \<longrightarrow>
           dict_getitem m' (PStr label) =
             (if with_category label cs = [] then dict_getitem m (PStr label)
              else map_of (last (with_category label cs)) ''original_name'')"
      by blast
    have "with_category label (c # cs) = with_category label cs" if "label \<noteq> ''OTHER''" for label
      using that c True by (auto simp add: with_category_def)
    with m' c True show ?thesis by simp
  next
    case False
    let ?m = "dict_setitem (PStr cat) name m"
    from Cons.IH [OF wf, of ?m] obtain m' where m': "column_mapping cs ?m = Inr m'"
      "\<forall>k. \<not> isinstance_str k \<longrightarrow> dict_getitem m' k = dict_getitem ?m k"
      "dict_getitem m' (PStr ''OTHER'') = dict_getitem ?m (PStr ''OTHER'')"
      "\<forall>label. label \<noteq> ''OTHER'' \<longrightarrow>
           dict_getitem m' (PStr label) =
             (if with_category label cs = [] then dict_getitem ?m (PStr label)
              else map_of (last (with_category label cs)) ''original_name'')"
      by blast
    have run: "column_mapping (c # cs) m = Inr m'"
      using c False m'(1) by simp
    have rest: "\<forall>k. \<not> isinstance_str k \<longrightarrow> dict_getitem m' k = dict_getitem m k"
      using m'(2) by (auto simp add: dict_getitem_setitem_str isinstance_str_def)
    have other: "dict_getitem m' (PStr ''OTHER'') = dict_getitem m (PStr ''OTHER'')"
      using m'(3) False by (simp add: dict_getitem_setitem_str)
    have "dict_getitem m' (PStr label) =
             (if with_category label (c # cs) = [] then dict_getitem m (PStr label)
              else map_of (last (with_category label (c # cs))) ''original_name'')"
      if k: "label \<noteq> ''OTHER''" for label
    proof (cases "label = cat")
      case True
      have w: "with_category cat (c # cs) = c # with_category cat cs"
        using c by (simp add: with_category_def)
      from m'(4) k True have "dict_getitem m' (PStr cat) =
          (if with_category cat cs = [] then Some name
           else map_of (last (with_category cat cs)) ''original_name'')"
        by (simp add: dict_getitem_setitem_str)
      then show ?thesis
        unfolding True w using c by simp
    next
      case False
      then have w: "with_category label (c # cs) = with_category label cs"
        using c by (auto simp add: with_category_def)
      show ?thesis
        using m'(4) k False by (simp add: w dict_getitem_setitem_str)
    qed
    with run rest other show ?thesis by blast
  qed
qed

text \<open>
  Claim C5. For every list of column classifications (each with a string label as
  category and with an original name) the mapping is built, it has no key \<^verbatim>\<open>OTHER\<close>, and
  for every label other than \<^verbatim>\<open>OTHER\<close> that some classification carries it has that key,
  with the original name of the last classification of that label as value. It has no
  other key.
\<close>

theorem column_mapping_last_write_wins:
  "\<forall>c \<in> set cs. well_formed c \<Longrightarrow>
   \<exists>m. column_mapping cs [] = Inr m
     \<and> dict_getitem m (PStr ''OTHER'') = None
     \<and> (\<forall>c \<in> set cs. \<forall>label. map_of c ''category'' = Some (PStr label) \<and> label \<noteq> ''OTHER'' \<longrightarrow>
           dict_getitem m (PStr label) \<noteq> None
         \<and> dict_getitem m (PStr label) = map_of (last (with_category label cs)) ''original_name'')
     \<and> (\<forall>k. dict_getitem m k \<noteq> None \<longrightarrow>
           (\<exists>label. k = PStr label \<and> label \<noteq> ''OTHER'' \<and> with_category label cs \<noteq> []))"
proof -
  assume wf: "\<forall>c \<in> set cs. well_formed c"
  from column_mapping_acc [OF wf, of "[]"] obtain m where m: "column_mapping cs [] = Inr m"
    "\<forall>k. \<not> isinstance_str k \<longrightarrow> dict_getitem m k = None"
    "dict_getitem m (PStr ''OTHER'') = None"
    "\<forall>label. label \<noteq> ''OTHER'' \<longrightarrow>
           dict_getitem m (PStr label) =
             (if with_category label cs = [] then None
              else map_of (last (with_category label cs)) ''original_name'')"
    by auto
  have 1: "dict_getitem m (PStr label) \<noteq> None
      \<and> dict_getitem m (PStr label) = map_of (last (with_category label cs)) ''original_name''"
    if "c \<in> set cs" "map_of c ''category'' = Some (PStr label)" "label \<noteq> ''OTHER''" for c label
  proof -
    from that have ne: "with_category label cs \<noteq> []"
      by (auto simp add: with_category_def filter_empty_conv)
    then have "last (with_category label cs) \<in> set (with_category label cs)" by simp
    then have "last (with_category label cs) \<in> set cs" by (simp add: with_category_def)
    with wf have "well_formed (last (with_category label cs))" by blast
    then have "map_of (last (with_category label cs)) ''original_name'' \<noteq> None"
      by (auto simp add: well_formed_def split: option.splits py.splits)
    with m(4) that(3) ne show ?thesis by simp
  qed
  have 2: "\<exists>label. k = PStr label \<and> label \<noteq> ''OTHER'' \<and> with_category label cs \<noteq> []"
    if g: "dict_getitem m k \<noteq> None" for k
  proof -
    have "isinstance_str k"
    proof (rule ccontr)
      assume "\<not> isinstance_str k"
      with m(2) have "dict_getitem m k = None" by simp
      with g show False by simp
    qed
    then obtain label where l: "k = PStr label"
      by (cases k) (simp_all add: isinstance_str_def)
    have o: "label \<noteq> ''OTHER''"
    proof
      assume "label = ''OTHER''"
      with m(3) l have "dict_getitem m k = None" by simp
      with g show False by simp
    qed
    from m(4) o have "dict_getitem m (PStr label) =
             (if with_category label cs = [] then None
              else map_of (last (with_category label cs)) ''original_name'')"
      by simp
    with g l have "with_category label cs \<noteq> []"
      by (cases "with_category label cs = []") simp_all
    with l o show ?thesis by simp
  qed
  have all1: "\<forall>c \<in> set cs. \<forall>label. map_of c ''category'' = Some (PStr label) \<and> label \<noteq> ''OTHER'' \<longrightarrow>
           dict_getitem m (PStr label) \<noteq> None
         \<and> dict_getitem m (PStr label) = map_of (last (with_category label cs)) ''original_name''"
  proof (intro ballI allI impI)
    fix c label
    assume c: "c \<in> set cs"
      and h: "map_of c ''category'' = Some (PStr label) \<and> label \<noteq> ''OTHER''"
    from h have h1: "map_of c ''category'' = Some (PStr label)" and h2: "label \<noteq> ''OTHER''"
      by simp_all
    show "dict_getitem m (PStr label) \<noteq> None
         \<and> dict_getitem m (PStr label) = map_of (last (with_category label cs)) ''original_name''"
      by (rule 1 [OF c h1 h2])
  qed
  have all2: "\<forall>k. dict_getitem m k \<noteq> None \<longrightarrow>
           (\<exists>label. k = PStr label \<and> label \<noteq> ''OTHER'' \<and> with_category label cs \<noteq> [])"
  proof (intro allI impI)
    fix k
    assume "dict_getitem m k \<noteq> None"
    then show "\<exists>label. k = PStr label \<and> label \<noteq> ''OTHER'' \<and> with_category label cs \<noteq> []"
      by (rule 2)
  qed
  from m(1) m(3) all1 all2 show ?thesis
    by (intro exI [of _ m] conjI)
qed

theorem column_mapping_last_write_wins_witness:
  "list_all well_formed example_classifications
   \<and> column_mapping example_classifications [] = Inr [(PStr ''title'', PStr ''Headline'')]
   \<and> dict_getitem [(PStr ''title'', PStr ''Headline'')] (PStr ''title'') = Some (PStr ''Headline'')"
proof -
  have h: "\<forall>c \<in> set example_classifications. well_formed c"
    by (simp add: example_classifications_def well_formed_def)
  have e: "column_mapping example_classifications [] = Inr [(PStr ''title'', PStr ''Headline'')]"
    by (simp add: example_classifications_def)
  show ?thesis
    using column_mapping_last_write_wins [OF h] h e by (simp add: list_all_iff)
qed

text \<open>Numeric labels of equal value are one key, as in Python: the second name replaces the first.\<close>

lemma column_mapping_numeric_labels:
  "column_mapping [[(''category'', PInt 1), (''original_name'', PStr ''A'')],
                   [(''category'', PFloat (Finite 1)), (''original_name'', PStr ''B'')]] []
     = Inr [(PInt 1, PStr ''B'')]"
  by simp

section \<open>Sampling\<close>

lemma example_sampler_ok: "sampler_ok (example_env reply parsed)"
  by (auto simp add: sampler_ok_def example_env_def last_values_def dest: in_set_takeD)

lemma example_iteration_ok: "iteration_ok (example_env reply parsed)"
  by (simp add: iteration_ok_def example_env_def)

lemma reversed_iteration_ok:
  "iteration_ok (E\<lparr>set_iteration := reversed_iteration\<rparr>)"
  by (simp add: iteration_ok_def reversed_iteration_def)

lemma length_stringified:
  "sampler_ok E \<Longrightarrow> length (stringified E xs) \<le> 10"
  by (simp add: stringified_def sampler_ok_def)

lemma sample_values_iteration:
  assumes "sampler_ok E" "iteration_ok E"
  shows "sample_values E xs = set_iteration E (stringified E xs)"
proof -
  have "length (set_iteration E (stringified E xs)) = card (set (stringified E xs))"
    using assms(2) by (metis iteration_ok_def distinct_card)
  also have "\<dots> \<le> length (stringified E xs)" by (rule card_length)
  also have "\<dots> \<le> 10" using assms(1) by (rule length_stringified)
  finally show ?thesis
    by (simp add: sample_values_def stringified_def Let_def)
qed

lemma set_sample_values:
  assumes "sampler_ok E" "iteration_ok E"
  shows "set (sample_values E xs) = set (stringified E xs)"
  using assms by (simp add: sample_values_iteration iteration_ok_def)

lemma length_sample_values:
  assumes "sampler_ok E" "iteration_ok E"
  shows "length (sample_values E xs) = card (set (stringified E xs))"
  using assms by (metis sample_values_iteration iteration_ok_def distinct_card)

lemma stringified_subset:
  assumes "sampler_ok E"
  shows "set (stringified E xs) \<subseteq> set (map (py_str E) xs)"
proof -
  have "set (random_sample E 1 xs (min 5 (length xs))) \<subseteq> set xs"
    using assms by (simp add: sampler_ok_def)
  moreover have "set (take 5 xs) \<subseteq> set xs" by (rule set_take_subset)
  ultimately show ?thesis by (auto simp add: stringified_def)
qed

text \<open>
  Claim C7. Two runs of the sampling step on the same values, with the same seeded sampler
  and the same string conversion, yield the same set of strings, whatever order each run
  iterates its set in. (The cut at ten never removes an element, since at most ten strings
  enter the set.)
\<close>

theorem sampling_deterministic:
  "sampler_ok E \<Longrightarrow> iteration_ok E \<Longrightarrow> iteration_ok E' \<Longrightarrow>
   random_sample E' = random_sample E \<Longrightarrow> format_value E' = format_value E \<Longrightarrow>
   set (sample_values E' xs) = set (sample_values E xs)"
proof -
  assume s: "sampler_ok E" and i: "iteration_ok E" and i': "iteration_ok E'"
    and r: "random_sample E' = random_sample E" and f: "format_value E' = format_value E"
  from s r have s': "sampler_ok E'" by (simp add: sampler_ok_def)
  from f have "py_str E' = py_str E" by (simp add: py_str_def fun_eq_iff split: py.split)
  with r have "stringified E' xs = stringified E xs" by (simp add: stringified_def)
  then show ?thesis
    by (simp add: set_sample_values [OF s i] set_sample_values [OF s' i'])
qed

theorem sampling_deterministic_witness:
  "sample_values (example_env (Inl TransportError) (Inl JSONDecodeError)) (dropna (cells skewed_column))
      = [''a'', ''c'', ''d'', ''e'', ''f'', ''g'']
   \<and> sample_values ((example_env (Inl TransportError) (Inl JSONDecodeError))\<lparr>set_iteration := reversed_iteration\<rparr>)
        (dropna (cells skewed_column))
      = [''g'', ''f'', ''e'', ''d'', ''c'', ''a'']
   \<and> set (sample_values ((example_env (Inl TransportError) (Inl JSONDecodeError))\<lparr>set_iteration := reversed_iteration\<rparr>)
        (dropna (cells skewed_column)))
      = set (sample_values (example_env (Inl TransportError) (Inl JSONDecodeError)) (dropna (cells skewed_column)))"
proof -
  let ?E = "example_env (Inl TransportError) (Inl JSONDecodeError)"
  have 1: "sample_values ?E (dropna (cells skewed_column)) = [''a'', ''c'', ''d'', ''e'', ''f'', ''g'']"
    by (simp add: sample_values_def skewed_column_def dropna_def isna_def example_env_def
          last_values_def py_str_def Let_def)
  have 2: "sample_values (?E\<lparr>set_iteration := reversed_iteration\<rparr>) (dropna (cells skewed_column))
      = [''g'', ''f'', ''e'', ''d'', ''c'', ''a'']"
    by (simp add: sample_values_def skewed_column_def dropna_def isna_def example_env_def
          last_values_def py_str_def reversed_iteration_def Let_def)
  have 3: "set (sample_values (?E\<lparr>set_iteration := reversed_iteration\<rparr>) (dropna (cells skewed_column)))
      = set (sample_values ?E (dropna (cells skewed_column)))"
    by (rule sampling_deterministic [OF example_sampler_ok example_iteration_ok reversed_iteration_ok])
       simp_all
  from 1 2 3 show ?thesis by blast
qed

text \<open>
  Claim C6, as stated, at a column of eleven values: five times \<^verbatim>\<open>a\<close>, then \<^verbatim>\<open>b\<close> to
  \<^verbatim>\<open>g\<close>. It has seven distinct values, and the sample in the prompt has six.
\<close>

theorem sample_size_counterexample:
  "length (dropna (cells skewed_column)) = 11
   \<and> fst (process_column (example_env (Inl TransportError) (Inl JSONDecodeError))
            skewed_column ''Finding'' COLUMN_CATEGORIES)
       = [ColumnPrompt ''Finding'' ''object'' [''a'', ''c'', ''d'', ''e'', ''f'', ''g''] COLUMN_CATEGORIES]
   \<and> min 10 (card (set (map (py_str (example_env (Inl TransportError) (Inl JSONDecodeError)))
                           (dropna (cells skewed_column))))) = 7"
  by (simp add: process_column_def create_column_prompt_def sample_values_def skewed_column_def
        dropna_def isna_def example_env_def last_values_def py_str_def classify_column_def
        classify_try_def Let_def card_set)

text \<open>
  On that column the sample has at most six strings for every sampler and every iteration
  order: \<^verbatim>\<open>a\<close> and what the five sampled values contribute.
\<close>

lemma skewed_column_every_sampler:
  assumes "sampler_ok E" "iteration_ok E"
  shows "length (sample_values E (dropna (cells skewed_column))) \<le> 6"
    and "card (set (map (py_str E) (dropna (cells skewed_column)))) = 7"
proof -
  let ?xs = "dropna (cells skewed_column)"
  let ?rs = "random_sample E 1 ?xs (min 5 (length ?xs))"
  have five: "map (py_str E) (take 5 ?xs) = [''a'', ''a'', ''a'', ''a'', ''a'']"
    by (simp add: skewed_column_def dropna_def isna_def py_str_def)
  have "length ?rs = 5"
    using assms(1) by (simp add: sampler_ok_def skewed_column_def dropna_def isna_def)
  then have "card (set (map (py_str E) ?rs)) \<le> 5"
    using card_length [of "map (py_str E) ?rs"] by simp
  moreover have "set (stringified E ?xs) = insert ''a'' (set (map (py_str E) ?rs))"
    using five by (simp add: stringified_def)
  ultimately have "card (set (stringified E ?xs)) \<le> 6"
    by (simp add: card_insert_if)
  then show "length (sample_values E ?xs) \<le> 6"
    using length_sample_values [OF assms] by simp
  show "card (set (map (py_str E) ?xs)) = 7"
    by (simp add: skewed_column_def dropna_def isna_def py_str_def card_set)
qed

text \<open>
  Claim C6, amended. For a column with at least five non-missing values, the size of the
  sample in the prompt is the number of distinct strings among the first five values and
  the five sampled values; it is at most min(10, number of distinct stringified
  non-missing values), and at least the number of distinct strings among the first five
  values.
\<close>

theorem sample_size:
  "sampler_ok E \<Longrightarrow> iteration_ok E \<Longrightarrow> 5 \<le> length (dropna (cells df_column)) \<Longrightarrow>
   \<exists>S. fst (process_column E df_column column_name categories)
          = [ColumnPrompt column_name (dtype df_column) S categories]
      \<and> length S = card (set (map (py_str E)
                     (take 5 (dropna (cells df_column))
                      @ random_sample E 1 (dropna (cells df_column)) 5)))
      \<and> length S \<le> min 10 (card (set (map (py_str E) (dropna (cells df_column)))))
      \<and> card (set (map (py_str E) (take 5 (dropna (cells df_column))))) \<le> length S"
proof -
  let ?xs = "dropna (cells df_column)"
  let ?S = "sample_values E ?xs"
  assume s: "sampler_ok E" and i: "iteration_ok E" and n: "5 \<le> length ?xs"
  from n have ne: "?xs \<noteq> []" by auto
  have p: "fst (process_column E df_column column_name categories)
          = [ColumnPrompt column_name (dtype df_column) ?S categories]"
    using nonempty_column_calls_once [OF ne] by (simp add: create_column_prompt_def)
  have st: "stringified E ?xs = map (py_str E) (take 5 ?xs @ random_sample E 1 ?xs 5)"
    using n by (simp add: stringified_def min_def)
  have len: "length ?S = card (set (stringified E ?xs))"
    using s i by (rule length_sample_values)
  have "card (set (stringified E ?xs)) \<le> card (set (map (py_str E) ?xs))"
    using stringified_subset [OF s, of ?xs] by (intro card_mono) simp_all
  moreover have "card (set (stringified E ?xs)) \<le> 10"
    using card_length [of "stringified E ?xs"] length_stringified [OF s, of ?xs] by linarith
  ultimately have up: "length ?S \<le> min 10 (card (set (map (py_str E) ?xs)))"
    using len by simp
  have "card (set (map (py_str E) (take 5 ?xs))) \<le> card (set (stringified E ?xs))"
    by (rule card_mono) (auto simp add: stringified_def)
  then have lo: "card (set (map (py_str E) (take 5 ?xs))) \<le> length ?S"
    using len by simp
  from p len st up lo show ?thesis by metis
qed

theorem sample_size_witness:
  "5 \<le> length (dropna (cells skewed_column))
   \<and> fst (process_column (example_env (Inl TransportError) (Inl JSONDecodeError))
            skewed_column ''Finding'' COLUMN_CATEGORIES)
       = [ColumnPrompt ''Finding'' ''object'' [''a'', ''c'', ''d'', ''e'', ''f'', ''g''] COLUMN_CATEGORIES]
   \<and> length [''a'', ''c'', ''d'', ''e'', ''f'', ''g''] \<le> (7 :: nat)"
proof -
  have h: "5 \<le> length (dropna (cells skewed_column))"
    by (simp add: skewed_column_def dropna_def isna_def)
  show ?thesis
    using sample_size [OF example_sampler_ok example_iteration_ok h,
        of "Inl TransportError" "Inl JSONDecodeError" "''Finding''" COLUMN_CATEGORIES] h
    by (simp add: process_column_def create_column_prompt_def sample_values_def skewed_column_def
        dropna_def isna_def example_env_def last_values_def py_str_def classify_column_def
        classify_try_def Let_def)
qed

section \<open>Excel header detection\<close>

text \<open>
  Claim C8, as stated, at a sheet of numbers: no cell of the first row is a string, the
  first row stays a data row, and the column labels are the integers 0 and 1, not
  \<^verbatim>\<open>Column_0\<close> and \<^verbatim>\<open>Column_1\<close>.
\<close>

theorem excel_header_counterexample:
  "read_excel_file numeric_sheet = Inr \<lparr>columns = [PInt 0, PInt 1], rows = numeric_sheet\<rparr>
   \<and> PStr ''Column_0'' \<notin> set [PInt 0, PInt 1]"
  by (simp add: read_excel_file_def numeric_sheet_def isna_def isinstance_str_def)

lemma header_test:
  "((of_nat (length (filter isinstance_str row)) :: rat) > of_nat (length row) * (1 / 2))
     = (length row < 2 * length (filter isinstance_str row))"
proof -
  have "((of_nat (length row) :: rat) * (1 / 2) < of_nat (length (filter isinstance_str row)))
      = ((of_nat (length row) :: rat) < of_nat (2 * length (filter isinstance_str row)))"
    by (simp add: field_simps)
  also have "\<dots> = (length row < 2 * length (filter isinstance_str row))"
    by (rule of_nat_less_iff)
  finally show ?thesis by simp
qed

lemma nonempty_str_count:
  "length (filter nonempty_str row) \<le> length (filter isinstance_str row)"
proof -
  have "filter nonempty_str row = filter nonempty_str (filter isinstance_str row)"
    by (auto simp add: nonempty_str_def isinstance_str_def intro!: filter_cong split: py.splits)
  then show ?thesis
    by (metis length_filter_le)
qed

text \<open>
  Claim C8, amended. Let \<open>first_row\<close> be the first row that is not entirely empty. If more
  than half of its cells are strings (so in particular if more than half are non-empty
  strings), the first row is the header and is removed from the data: a cell that is a
  string and not blank gives its stripped text as column name, every other cell gives
  \<^verbatim>\<open>Column_<index>\<close>. Otherwise the first row stays in the data and the column labels are
  the integers \<open>0, ..., n - 1\<close>; no name \<^verbatim>\<open>Column_<index>\<close> is made.
\<close>

theorem excel_header:
  "filter (\<lambda>row. \<not> list_all isna row) sheet = first_row # data \<Longrightarrow>
     (length first_row < 2 * length (filter nonempty_str first_row)
        \<longrightarrow> length first_row < 2 * length (filter isinstance_str first_row))
   \<and> (length first_row < 2 * length (filter isinstance_str first_row) \<longrightarrow>
        (\<exists>df. read_excel_file sheet = Inr df \<and> rows df = data
           \<and> length (columns df) = length first_row
           \<and> (\<forall>idx < length first_row.
                 columns df ! idx =
                   (case first_row ! idx of
                      PStr s \<Rightarrow> if strip s \<noteq> [] then PStr (strip s)
                                else PStr (''Column_'' @ str_nat idx)
                    | _ \<Rightarrow> PStr (''Column_'' @ str_nat idx)))))
   \<and> (\<not> length first_row < 2 * length (filter isinstance_str first_row) \<longrightarrow>
        read_excel_file sheet =
          Inr \<lparr>columns = map (\<lambda>i. PInt (int i)) [0..<length first_row],
               rows = first_row # data\<rparr>)"
proof (intro conjI impI)
  assume a: "filter (\<lambda>row. \<not> list_all isna row) sheet = first_row # data"
  { assume "length first_row < 2 * length (filter nonempty_str first_row)"
    then show "length first_row < 2 * length (filter isinstance_str first_row)"
      using nonempty_str_count [of first_row] by linarith }
  { assume h: "length first_row < 2 * length (filter isinstance_str first_row)"
    let ?df = "\<lparr>columns = map (\<lambda>(idx, val). header_name idx val) (enumerate 0 first_row),
                rows = data\<rparr>"
    have r: "read_excel_file sheet = Inr ?df"
      using a h by (simp add: read_excel_file_def header_test)
    have "columns ?df ! idx = header_name idx (first_row ! idx)" if "idx < length first_row" for idx
      using that by (simp add: nth_enumerate_eq)
    then have "\<forall>idx < length first_row.
                 columns ?df ! idx =
                   (case first_row ! idx of
                      PStr s \<Rightarrow> if strip s \<noteq> [] then PStr (strip s)
                                else PStr (''Column_'' @ str_nat idx)
                    | _ \<Rightarrow> PStr (''Column_'' @ str_nat idx))"
      by (simp add: header_name_def)
    with r show "\<exists>df. read_excel_file sheet = Inr df \<and> rows df = data
           \<and> length (columns df) = length first_row
           \<and> (\<forall>idx < length first_row.
                 columns df ! idx =
                   (case first_row ! idx of
                      PStr s \<Rightarrow> if strip s \<noteq> [] then PStr (strip s)
                                else PStr (''Column_'' @ str_nat idx)
                    | _ \<Rightarrow> PStr (''Column_'' @ str_nat idx)))"
      by (intro exI [of _ ?df]) simp }
  { assume h: "\<not> length first_row < 2 * length (filter isinstance_str first_row)"
    show "read_excel_file sheet =
          Inr \<lparr>columns = map (\<lambda>i. PInt (int i)) [0..<length first_row],
               rows = first_row # data\<rparr>"
      using a h by (simp add: read_excel_file_def header_test) }
qed

theorem excel_header_witness:
  "read_excel_file titled_sheet =
     Inr \<lparr>columns = [PStr ''Issue ID'', PStr ''Column_1'', PStr ''Column_2''],
          rows = [[PInt 1, PStr ''Server down'', PStr ''IT'']]\<rparr>
   \<and> read_excel_file numeric_sheet = Inr \<lparr>columns = [PInt 0, PInt 1], rows = numeric_sheet\<rparr>"
proof -
  have t: "filter (\<lambda>row. \<not> list_all isna row) titled_sheet =
      [PStr '' Issue ID'', PStr ''  '', PFloat NaN] # [[PInt 1, PStr ''Server down'', PStr ''IT'']]"
    by (simp add: titled_sheet_def isna_def)
  have n: "filter (\<lambda>row. \<not> list_all isna row) numeric_sheet = [PInt 1, PInt 2] # [[PInt 3, PInt 4]]"
    by (simp add: numeric_sheet_def isna_def)
  show ?thesis
    using excel_header [OF t] excel_header [OF n]
    by (simp add: read_excel_file_def titled_sheet_def numeric_sheet_def isna_def
          isinstance_str_def header_name_def strip_def isspace_def digit_char_def enumerate_eq_zip)
qed

end
